theory Spec2Isabelle
  imports Main
begin

section \<open>Python values\<close>

text \<open>
  The values that travel through keyword arguments and through the \<open>extensions\<close>
  mapping of a conversation: \<open>None\<close>, booleans, integers, strings and dictionaries.
  A dictionary is an association list in insertion order, as Python keeps it; a key is
  looked up with \<open>map_of\<close>, which reads the first binding of the key.
\<close>

datatype pyval =
    PNone
  | PBool bool
  | PInt int
  | PStr string
  | PDict "(string \<times> pyval) list"

type_synonym pydict = "(string \<times> pyval) list"

text \<open>Python's truth value of an object, as \<open>if x\<close>, \<open>not x\<close> and \<open>x and y\<close> test it.\<close>

fun truthy :: "pyval \<Rightarrow> bool" where
  "truthy PNone = False"
| "truthy (PBool b) = b"
| "truthy (PInt n) = (n \<noteq> 0)"
| "truthy (PStr s) = (s \<noteq> [])"
| "truthy (PDict d) = (d \<noteq> [])"

text \<open>\<open>d.get(k, default)\<close>.\<close>

definition dict_get :: "pydict \<Rightarrow> string \<Rightarrow> pyval \<Rightarrow> pyval" where
  "dict_get d k dflt = (case map_of d k of Some v \<Rightarrow> v | None \<Rightarrow> dflt)"

text \<open>
  \<open>d[k] = v\<close>: an existing key keeps its position and takes the new value, a new key
  is appended.
\<close>

fun dict_set :: "pydict \<Rightarrow> string \<Rightarrow> pyval \<Rightarrow> pydict" where
  "dict_set [] k v = [(k, v)]"
| "dict_set ((k', v') # d) k v = (if k' = k then (k, v) # d else (k', v') # dict_set d k v)"

text \<open>
  What a Python computation raises. \<open>Exception c s\<close> is an instance of the class
  \<open>Exception\<close>: what \<open>except Exception\<close> catches. \<open>BaseException c s\<close> is an
  instance of \<open>BaseException\<close> that is not an instance of \<open>Exception\<close>, as
  \<open>asyncio.CancelledError\<close>, \<open>KeyboardInterrupt\<close> and \<open>SystemExit\<close> are:
  \<open>except Exception\<close> lets it pass. \<open>exn_class\<close> is the name of the class and
  \<open>exn_str\<close> is \<open>str(exc)\<close>, the text that \<open>f"{exc}"\<close> renders.
\<close>

datatype exn =
    is_Exception: Exception (exn_class: string) (exn_str: string)
  | BaseException (exn_class: string) (exn_str: string)

text \<open>
  \<open>repr(s)\<close> of a string without quotes, backslashes or unprintable characters, such
  as an identifier: the string between single quotes.
\<close>

definition quoted :: "string \<Rightarrow> string" where
  "quoted s = [CHR 0x27] @ s @ [CHR 0x27]"

section \<open>Messages\<close>

text \<open>
  Modelled from the spec: the classes \<open>Address\<close>, \<open>Message\<close>, \<open>ChatMessage\<close>,
  \<open>ChatHistory\<close>, \<open>GenericMessage\<close> and \<open>SetReplyAgent\<close> (\<open>coagent.core\<close> and
  \<open>coagent/agents/messages.py\<close>) are not among the sources. The spec gives a chat
  message the fields \<open>{role, content, type?, to_user?, sender?}\<close>, the optional ones
  empty or false when not given, a chat history the fields
  \<open>{messages, reply, extensions}\<close>, and a generic message an opaque payload and the
  same \<open>reply\<close> field. An address is built in the sources as
  \<open>Address(name=..., id=...)\<close>.
\<close>

record address =
  addr_name :: string
  addr_id :: string

record chat_message =
  role :: string
  content :: string
  type :: string
  sender :: string
  to_user :: bool

record message =
  reply :: "address option"

record chat_history = message +
  messages :: "chat_message list"
  extensions :: pydict

record generic_message = message +
  opaque :: string

text \<open>
  What is published on a channel. \<open>encode\<close> and \<open>decode\<close> are inverse to each other
  (spec, section 6), so a publication is identified with the message it encodes.
\<close>

datatype payload =
    SetReplyAgent address
  | Generic generic_message

text \<open>
  Modelled from the spec: \<open>Channel.publish(address, payload)\<close> without \<open>stream\<close>
  hands the payload to the transport for the address. The channel is the sequence of
  publications made so far.
\<close>

type_synonym channel = "(address \<times> payload) list"

definition publish :: "channel \<Rightarrow> address \<Rightarrow> payload \<Rightarrow> channel" where
  "publish ch addr p = ch @ [(addr, p)]"

section \<open>RunContext\<close>

text \<open>
  \<open>RunContext\<close> is a \<open>dict\<close> subclass; \<open>RunContext(x)\<close> copies the mapping \<open>x\<close>.
  For a value that is not a mapping the \<open>dict\<close> constructor raises: \<open>None\<close>, a
  boolean or an integer is not iterable, and the elements of a non-empty string are
  strings of length one, not key-value pairs.
\<close>

definition not_iterable :: "string \<Rightarrow> exn" where
  "not_iterable cls = Exception ''TypeError'' (quoted cls @ '' object is not iterable'')"

fun RunContext :: "pyval \<Rightarrow> exn + pydict" where
  "RunContext (PDict d) = Inr d"
| "RunContext PNone = Inl (not_iterable ''NoneType'')"
| "RunContext (PBool b) = Inl (not_iterable ''bool'')"
| "RunContext (PInt n) = Inl (not_iterable ''int'')"
| "RunContext (PStr s) =
     (if s = [] then Inr []
      else Inl (Exception ''ValueError''
                  ''dictionary update sequence element #0 has length 1; 2 is required''))"

definition user_confirmed :: "pydict \<Rightarrow> pyval" where
  "user_confirmed ctx = dict_get ctx ''user_confirmed'' (PBool False)"

definition set_user_confirmed :: "pydict \<Rightarrow> pyval \<Rightarrow> pydict" where
  "set_user_confirmed ctx v = dict_set ctx ''user_confirmed'' v"

definition user_submitted :: "pydict \<Rightarrow> pyval" where
  "user_submitted ctx = dict_get ctx ''user_submitted'' (PBool False)"

definition set_user_submitted :: "pydict \<Rightarrow> pyval \<Rightarrow> pydict" where
  "set_user_submitted ctx v = dict_set ctx ''user_submitted'' v"

section \<open>Tools\<close>

text \<open>
  A tool is an \<open>async\<close> function called as \<open>func(*args, **kwargs)\<close>. It returns a
  chat message or another value, or raises, and it may act on the world around it,
  which is threaded through the call as a state of type \<open>'w\<close>. The guards read the
  tool's signature (\<open>inspect.signature\<close>): the declared parameters in order, each with
  what \<open>param.default\<close> holds. That is \<open>Parameter.empty\<close> for a parameter without a
  default, a plain value, or a pydantic \<open>FieldInfo\<close> whose own \<open>default\<close> is either a
  value or \<open>PydanticUndefined\<close>.
\<close>

datatype tool_result = Message chat_message | Value pyval

datatype field_default = PydanticUndefined | Default pyval

datatype param_default = Empty | Plain pyval | FieldInfo field_default

record 'w tool =
  parameters :: "(string \<times> param_default) list"
  call :: "pyval list \<Rightarrow> pydict \<Rightarrow> 'w \<Rightarrow> (exn + tool_result) \<times> 'w"

text \<open>
  A tool that counts its invocations: the world gets a counter that every call of the
  tool increments.
\<close>

definition counted :: "'w tool \<Rightarrow> (nat \<times> 'w) tool" where
  "counted func =
     \<lparr>parameters = parameters func,
      call = (\<lambda>args kwargs (n, w).
                case call func args kwargs w of (r, w') \<Rightarrow> (r, (Suc n, w')))\<rparr>"

text \<open>Sequencing of steps that may raise: the first exception ends the computation.\<close>

definition on_value :: "exn + 'a \<Rightarrow> ('a \<Rightarrow> exn + 'b) \<Rightarrow> exn + 'b" where
  "on_value r f = (case r of Inl exc \<Rightarrow> Inl exc | Inr a \<Rightarrow> f a)"

section \<open>The confirm and submit guards\<close>

text \<open>
  The test \<open>ctx and not RunContext(ctx).flag\<close> of both guards: a falsy \<open>ctx\<close> ends the
  conjunction before \<open>RunContext\<close> is built.
\<close>

definition gate_closed :: "(pydict \<Rightarrow> pyval) \<Rightarrow> pyval \<Rightarrow> exn + bool" where
  "gate_closed flag ctx =
     (if truthy ctx then on_value (RunContext ctx) (\<lambda>rc. Inr (\<not> truthy (flag rc)))
      else Inr False)"

text \<open>
  \<open>confirm(template)(func)\<close>. Python's \<open>str.format\<close> is a parameter of the model:
  \<open>str_format template kwargs\<close> is \<open>template.format(**kwargs)\<close>, a string or the
  exception it raises (a \<open>KeyError\<close> for a field that names no argument, for one).
  \<open>functools.wraps\<close> gives the wrapper the signature of the wrapped function.
\<close>

definition confirm ::
  "(string \<Rightarrow> pydict \<Rightarrow> exn + string) \<Rightarrow> string \<Rightarrow> 'w tool \<Rightarrow> 'w tool" where
  "confirm str_format template func =
     func\<lparr>call := (\<lambda>args kwargs w.
       let ctx = dict_get kwargs ''ctx'' PNone
       in case gate_closed user_confirmed ctx of
            Inl exc \<Rightarrow> (Inl exc, w)
          | Inr True \<Rightarrow>
              (case str_format template kwargs of
                 Inl exc \<Rightarrow> (Inl exc, w)
               | Inr text \<Rightarrow>
                   (Inr (Message \<lparr>role = ''assistant'', content = text, type = ''confirm'',
                                  sender = [], to_user = True\<rparr>), w))
          | Inr False \<Rightarrow> call func args kwargs w)\<rparr>"

text \<open>The form that \<open>submit\<close> uses when the caller gives no template.\<close>

definition default_template :: string where
  "default_template =
     ''Please fill in the input form below:'' @ [CHR 0x0A, CHR 0x0A] @
     ''```schema'' @ [CHR 0x0A] @ ''{schema}'' @ [CHR 0x0A] @ ''```'' @ [CHR 0x0A, CHR 0x0A] @
     ''```input'' @ [CHR 0x0A] @ ''{input}'' @ [CHR 0x0A] @ ''```''"

text \<open>\<open>raw["function"]\<close> on the dictionary that \<open>function_to_jsonschema\<close> returns.\<close>

definition getitem :: "pydict \<Rightarrow> string \<Rightarrow> exn + pyval" where
  "getitem d k =
     (case map_of d k of Some v \<Rightarrow> Inr v | None \<Rightarrow> Inl (Exception ''KeyError'' (quoted k)))"

text \<open>
  The message of a closed submit gate. \<open>function_to_jsonschema\<close>
  (\<open>coagent/agents/aswarm/util.py\<close>, not among the sources) and \<open>json.dumps\<close> with
  \<open>ensure_ascii=False, indent=2\<close> are parameters of the model, as \<open>str.format\<close> is.
\<close>

definition submit_message ::
  "('w tool \<Rightarrow> exn + pydict) \<Rightarrow> (pyval \<Rightarrow> exn + string) \<Rightarrow> (string \<Rightarrow> pydict \<Rightarrow> exn + string)
   \<Rightarrow> string \<Rightarrow> 'w tool \<Rightarrow> pydict \<Rightarrow> exn + chat_message" where
  "submit_message function_to_jsonschema json_dumps str_format template func kwargs =
     on_value (function_to_jsonschema func) (\<lambda>raw.
     on_value (getitem raw ''function'') (\<lambda>fn.
     on_value (json_dumps fn) (\<lambda>schema_json.
     let input = filter (\<lambda>(k, v). k \<noteq> ''ctx'') kwargs
     in on_value (json_dumps (PDict input)) (\<lambda>input_json.
     on_value (str_format template [(''schema'', PStr schema_json), (''input'', PStr input_json)])
       (\<lambda>text.
     Inr \<lparr>role = ''assistant'', content = text, type = ''submit'',
          sender = [], to_user = True\<rparr>)))))"

text \<open>\<open>submit(template)(func)\<close>; \<open>template or default\<close> replaces an empty template.\<close>

definition submit ::
  "('w tool \<Rightarrow> exn + pydict) \<Rightarrow> (pyval \<Rightarrow> exn + string) \<Rightarrow> (string \<Rightarrow> pydict \<Rightarrow> exn + string)
   \<Rightarrow> string \<Rightarrow> 'w tool \<Rightarrow> 'w tool" where
  "submit function_to_jsonschema json_dumps str_format template func =
     (let template = (if template \<noteq> [] then template else default_template)
      in func\<lparr>call := (\<lambda>args kwargs w.
           let ctx = dict_get kwargs ''ctx'' PNone
           in case gate_closed user_submitted ctx of
                Inl exc \<Rightarrow> (Inl exc, w)
              | Inr True \<Rightarrow>
                  (case submit_message function_to_jsonschema json_dumps str_format
                          template func kwargs of
                     Inl exc \<Rightarrow> (Inl exc, w)
                   | Inr m \<Rightarrow> (Inr (Message m), w))
              | Inr False \<Rightarrow> call func args kwargs w)\<rparr>)"

section \<open>The error-wrap guard\<close>

text \<open>
  The loop over \<open>sig.parameters.items()\<close> of \<open>wrap_error\<close>: a declared parameter that is
  not among the keyword arguments and whose default is a \<open>FieldInfo\<close> gets the default
  of the \<open>FieldInfo\<close>, or ends the loop with a \<open>ValueError\<close> where that is
  \<open>PydanticUndefined\<close>. \<open>{name!r}\<close> is \<open>repr(name)\<close> of a parameter name.
\<close>

fun fill_defaults :: "(string \<times> param_default) list \<Rightarrow> pydict \<Rightarrow> exn + pydict" where
  "fill_defaults [] kwargs = Inr kwargs"
| "fill_defaults ((name, FieldInfo dflt) # rest) kwargs =
     (if map_of kwargs name = None then
        (case dflt of
           PydanticUndefined \<Rightarrow>
             Inl (Exception ''ValueError'' (''Missing required argument '' @ quoted name))
         | Default d \<Rightarrow> fill_defaults rest (kwargs @ [(name, d)]))
      else fill_defaults rest kwargs)"
| "fill_defaults ((name, Empty) # rest) kwargs = fill_defaults rest kwargs"
| "fill_defaults ((name, Plain v) # rest) kwargs = fill_defaults rest kwargs"

text \<open>\<open>f"Error: {exc}"\<close>.\<close>

definition error_text :: "exn \<Rightarrow> tool_result" where
  "error_text exc = Value (PStr (''Error: '' @ exn_str exc))"

text \<open>
  The handler \<open>except Exception as exc: ... return f"Error: {exc}"\<close>: an instance of
  \<open>Exception\<close> becomes the returned text, anything else that is raised passes.
\<close>

definition except_Exception :: "exn \<Rightarrow> exn + tool_result" where
  "except_Exception exc = (if is_Exception exc then Inr (error_text exc) else Inl exc)"

text \<open>\<open>wrap_error(func)\<close>: the whole body is inside \<open>try ... except Exception\<close>.\<close>

definition wrap_error :: "'w tool \<Rightarrow> 'w tool" where
  "wrap_error func =
     func\<lparr>call := (\<lambda>args kwargs w.
       case fill_defaults (parameters func) kwargs of
         Inl exc \<Rightarrow> (except_Exception exc, w)
       | Inr kwargs \<Rightarrow>
           (case call func args kwargs w of
              (Inl exc, w') \<Rightarrow> (except_Exception exc, w')
            | (Inr r, w') \<Rightarrow> (Inr r, w')))\<rparr>"

section \<open>Sentiment classification\<close>

text \<open>
  A string is the sequence of the bytes of a Python \<open>str\<close> in UTF-8. Python's
  \<open>str.lower\<close> and \<open>str.strip\<close>, which follow the Unicode tables, are parameters of
  the model: \<open>str_lower s\<close> is \<open>s.lower()\<close> and \<open>str_strip s\<close> is \<open>s.strip()\<close>.
\<close>

text \<open>
  The completion client is outside the sources: \<open>client messages w\<close> is the role and
  the content of \<open>response.choices[0].message\<close> of \<open>client.acompletion\<close>, or the
  exception raised on the way, with the world after the request.
\<close>

type_synonym 'w model_client = "chat_message list \<Rightarrow> 'w \<Rightarrow> (exn + string \<times> string) \<times> 'w"

text \<open>A client that counts the requests made to it.\<close>

definition counted_client :: "'w model_client \<Rightarrow> (nat \<times> 'w) model_client" where
  "counted_client client =
     (\<lambda>msgs (n, w). case client msgs w of (r, w') \<Rightarrow> (r, (Suc n, w')))"

text \<open>\<open>chat\<close> of \<open>util.py\<close>.\<close>

definition chat :: "chat_message list \<Rightarrow> 'w model_client \<Rightarrow> 'w \<Rightarrow> (exn + chat_message) \<times> 'w" where
  "chat msgs client w =
     (case client msgs w of
        (Inl exc, w') \<Rightarrow> (Inl exc, w')
      | (Inr (msg_role, msg_content), w') \<Rightarrow>
          (Inr \<lparr>role = msg_role, content = msg_content, type = [], sender = [],
                to_user = False\<rparr>, w'))"

text \<open>The prompt of \<open>is_user_confirmed\<close>, an f-string around the content.\<close>

definition prompt :: "string \<Rightarrow> string" where
  "prompt text =
     ''Based on the input, determine whether it'' @ [CHR 0x27] @ ''s positive or not. Return ''
     @ [CHR 0x22] @ ''true'' @ [CHR 0x22] @ '' if it'' @ [CHR 0x27] @ ''s'' @ [CHR 0x0A]
     @ ''positive or '' @ [CHR 0x22] @ ''false'' @ [CHR 0x22]
     @ '' if not. You should only return '' @ [CHR 0x22] @ ''true'' @ [CHR 0x22] @ '' or ''
     @ [CHR 0x22] @ ''false.'' @ [CHR 0x0A, CHR 0x0A]
     @ ''Input: '' @ text @ [CHR 0x0A] @ ''Output:''"

definition is_user_confirmed ::
  "(string \<Rightarrow> string) \<Rightarrow> (string \<Rightarrow> string) \<Rightarrow> string \<Rightarrow> 'w model_client \<Rightarrow> 'w
   \<Rightarrow> (exn + bool) \<times> 'w" where
  "is_user_confirmed str_lower str_strip text client w =
     (if str_lower text \<in> set [''yes'', ''ok'', ''1''] then (Inr True, w)
      else if str_lower text \<in> set [''no'', ''do not'', ''0''] then (Inr False, w)
      else (case chat [\<lparr>role = ''user'', content = prompt text, type = [], sender = [],
                        to_user = False\<rparr>] client w of
              (Inl exc, w') \<Rightarrow> (Inl exc, w')
            | (Inr r, w') \<Rightarrow>
                (let answer = content r
                 in (Inr (str_lower (str_strip answer) = ''true''), w'))))"

section \<open>ChatAgent: the gating flags\<close>

text \<open>
  \<open>ChatAgent._has_confirm_message\<close>: \<open>history.messages[-2]\<close> is read only when there
  are at least two messages.
\<close>

definition has_confirm_message :: "chat_history \<Rightarrow> bool" where
  "has_confirm_message history =
     (length (messages history) > 1
      \<and> type (messages history ! (length (messages history) - 2)) = ''confirm'')"

text \<open>
  \<open>ChatAgent.update_user_confirmed\<close>. \<open>history.extensions\<close> is assigned at the end, so
  an exception of the classifier leaves the history as it was.
\<close>

definition update_user_confirmed ::
  "(string \<Rightarrow> string) \<Rightarrow> (string \<Rightarrow> string) \<Rightarrow> 'w model_client \<Rightarrow> chat_history \<Rightarrow> 'w
   \<Rightarrow> (exn + chat_history) \<times> 'w" where
  "update_user_confirmed str_lower str_strip client history w =
     (let ctx = extensions history;
          confirmed = user_confirmed ctx;
          is_reply_to_confirm_message = has_confirm_message history
      in case (if truthy confirmed then
                 (if \<not> is_reply_to_confirm_message then (Inr (PBool False), w)
                  else (Inr confirmed, w))
               else
                 (if is_reply_to_confirm_message then
                    (case is_user_confirmed str_lower str_strip
                            (content (last (messages history))) client w of
                       (Inl exc, w') \<Rightarrow> (Inl exc, w')
                     | (Inr b, w') \<Rightarrow> (Inr (PBool b), w'))
                  else (Inr confirmed, w))) of
           (Inl exc, w') \<Rightarrow> (Inl exc, w')
         | (Inr confirmed, w') \<Rightarrow>
             (Inr (history\<lparr>extensions := set_user_confirmed ctx confirmed\<rparr>), w'))"

text \<open>\<open>ChatAgent._is_submit_message\<close>: \<open>history.messages[-1]\<close> is read only when the list is not empty.\<close>

definition is_submit_message :: "chat_history \<Rightarrow> bool" where
  "is_submit_message history =
     (if length (messages history) = 0 then False
      else (let last_msg = last (messages history)
            in role last_msg = ''user'' \<and> type last_msg = ''submit''))"

text \<open>\<open>ChatAgent.update_user_submitted\<close>: returns the history with its \<open>extensions\<close> replaced.\<close>

definition update_user_submitted :: "chat_history \<Rightarrow> chat_history" where
  "update_user_submitted history =
     (let ctx = extensions history;
          ctx = set_user_submitted ctx (PBool (is_submit_message history))
      in history\<lparr>extensions := ctx\<rparr>)"

section \<open>The Sequential composer\<close>

record sequential =
  agent_types :: "string list"
  address :: address
  reply_address :: "address option"

text \<open>
  \<open>Sequential.handle\<close>: returns the message, whose \<open>reply\<close> the handler may have
  reset, and the channel after the publications. \<open>self.reply_address or msg.reply\<close>
  is the composer's own target when it has one. The first and the last agent type
  are read only when the tuple is not empty.
\<close>

definition handle :: "sequential \<Rightarrow> generic_message \<Rightarrow> channel \<Rightarrow> generic_message \<times> channel" where
  "handle self msg ch =
     (if length (agent_types self) = 0 then (msg, ch)
      else
        (let reply_to =
               (case reply_address self of Some a \<Rightarrow> Some a | None \<Rightarrow> reply msg);
             (msg, ch) =
               (case reply_to of
                  Some target \<Rightarrow>
                    (let last_addr = \<lparr>addr_name = last (agent_types self),
                                      addr_id = addr_id (address self)\<rparr>;
                         ch = publish ch last_addr (SetReplyAgent target)
                     in (msg\<lparr>reply := None\<rparr>, ch))
                | None \<Rightarrow> (msg, ch));
             addr = \<lparr>addr_name = hd (agent_types self), addr_id = addr_id (address self)\<rparr>
         in (msg, publish ch addr (Generic msg))))"

section \<open>The Delegate relay\<close>

record delegate =
  host_address :: address
  agent_type :: string

text \<open>
  The loop of \<open>Delegate.handle\<close> over the decoded chunks of the child's stream: the
  chunks yielded so far and the buffer \<open>full_content\<close> are the accumulator.
\<close>

fun relay :: "string \<Rightarrow> chat_message list \<Rightarrow> chat_message list \<times> string
              \<Rightarrow> chat_message list \<times> string" where
  "relay child_type [] (yielded, full_content) = (yielded, full_content)"
| "relay child_type (resp # chunks) (yielded, full_content) =
     (let resp = (if sender resp = [] then resp\<lparr>sender := child_type\<rparr> else resp)
      in relay child_type chunks (yielded @ [resp], full_content @ content resp))"

text \<open>
  \<open>Delegate.handle\<close>. \<open>publish_stream addr msg\<close> is the finite stream of decoded
  chunks that \<open>channel.publish(addr, msg.encode(), stream=True)\<close> of the host agent
  delivers.
\<close>

definition delegate_handle ::
  "(address \<Rightarrow> chat_history \<Rightarrow> chat_message list) \<Rightarrow> delegate \<Rightarrow> chat_history
   \<Rightarrow> chat_message list \<times> string" where
  "delegate_handle publish_stream self msg =
     (let addr = \<lparr>addr_name = agent_type self, addr_id = addr_id (host_address self)\<rparr>;
          result = publish_stream addr msg
      in relay (agent_type self) result ([], []))"

section \<open>Example tools and collaborators\<close>

text \<open>
  Concrete tools and collaborators, on which the guards are run below.
  \<open>format_fields\<close> is \<open>str.format\<close> on the templates of the examples: text in
  which every brace belongs to a field \<open>{name}\<close> whose argument is a string.
\<close>

function format_fields :: "string \<Rightarrow> pydict \<Rightarrow> exn + string" where
  "format_fields [] kwargs = Inr []"
| "format_fields (c # cs) kwargs =
     (if c = CHR ''{'' then
        (case map_of kwargs (takeWhile (\<lambda>x. x \<noteq> CHR ''}'') cs) of
           Some (PStr s) \<Rightarrow>
             (case format_fields (drop 1 (dropWhile (\<lambda>x. x \<noteq> CHR ''}'') cs)) kwargs of
                Inl exc \<Rightarrow> Inl exc
              | Inr r \<Rightarrow> Inr (s @ r))
         | _ \<Rightarrow> Inl (Exception ''KeyError'' (quoted (takeWhile (\<lambda>x. x \<noteq> CHR ''}'') cs))))
      else (case format_fields cs kwargs of Inl exc \<Rightarrow> Inl exc | Inr r \<Rightarrow> Inr (c # r)))"
  by pat_completeness auto
termination
  by (relation "measure (\<lambda>(template, kwargs). length template)")
     (auto simp: less_Suc_eq_le intro: le_trans [OF diff_le_self length_dropWhile_le])

text \<open>
  \<open>str.lower\<close> and \<open>str.strip\<close> on ASCII strings, which the strings of the examples
  are: the letters A to Z become a to z, and the leading and trailing tabs, line
  feeds, vertical tabs, form feeds, carriage returns, separators 0x1C to 0x1F and
  spaces are removed.
\<close>

definition ascii_lower_char :: "char \<Rightarrow> char" where
  "ascii_lower_char c =
     (case map_of (zip ''ABCDEFGHIJKLMNOPQRSTUVWXYZ'' ''abcdefghijklmnopqrstuvwxyz'') c of
        Some l \<Rightarrow> l
      | None \<Rightarrow> c)"

definition ascii_lower :: "string \<Rightarrow> string" where
  "ascii_lower s = map ascii_lower_char s"

definition ascii_isspace :: "char \<Rightarrow> bool" where
  "ascii_isspace c =
     (c \<in> set [CHR 0x09, CHR 0x0A, CHR 0x0B, CHR 0x0C, CHR 0x0D,
                CHR 0x1C, CHR 0x1D, CHR 0x1E, CHR 0x1F, CHR 0x20])"

definition ascii_strip :: "string \<Rightarrow> string" where
  "ascii_strip s = rev (dropWhile ascii_isspace (rev (dropWhile ascii_isspace s)))"

text \<open>
  A tool declared as \<open>async def delete_file(*args, **kwargs)\<close>, which accepts every
  call: it deletes a file and reports it.
\<close>

definition delete_file :: "unit tool" where
  "delete_file =
     \<lparr>parameters = [(''args'', Empty), (''kwargs'', Empty)],
      call = (\<lambda>args kwargs w. (Inr (Value (PStr ''deleted'')), w))\<rparr>"

text \<open>
  A tool declared as \<open>async def failing_tool(*args, **kwargs)\<close> that raises
  \<open>ValueError("bad")\<close>.
\<close>

definition failing_tool :: "unit tool" where
  "failing_tool =
     \<lparr>parameters = [(''args'', Empty), (''kwargs'', Empty)],
      call = (\<lambda>args kwargs w. (Inl (Exception ''ValueError'' ''bad''), w))\<rparr>"

text \<open>
  A tool declared as \<open>async def cancelled_tool(*args, **kwargs)\<close> whose task is
  cancelled while it waits: the \<open>await\<close> inside it raises \<open>asyncio.CancelledError()\<close>,
  whose \<open>str\<close> is empty.
\<close>

definition cancelled_tool :: "unit tool" where
  "cancelled_tool =
     \<lparr>parameters = [(''args'', Empty), (''kwargs'', Empty)],
      call = (\<lambda>args kwargs w. (Inl (BaseException ''CancelledError'' []), w))\<rparr>"

text \<open>
  A tool declared as \<open>weather(city: str = Field(description=...), unit: str =
  Field(default="C"))\<close> that returns its keyword arguments.
\<close>

definition weather :: "unit tool" where
  "weather =
     \<lparr>parameters = [(''city'', FieldInfo PydanticUndefined),
                    (''unit'', FieldInfo (Default (PStr ''C'')))],
      call = (\<lambda>args kwargs w. (Inr (Value (PDict kwargs)), w))\<rparr>"

text \<open>A schema for \<open>delete_file\<close>, and \<open>json.dumps\<close> on the two values of the example.\<close>

definition example_schema :: "'w tool \<Rightarrow> exn + pydict" where
  "example_schema func =
     Inr [(''type'', PStr ''function''), (''function'', PDict [(''name'', PStr ''delete_file'')])]"

definition example_dumps :: "pyval \<Rightarrow> exn + string" where
  "example_dumps v =
     (if v = PDict [(''name'', PStr ''delete_file'')] then
        Inr (''{'' @ [CHR 0x0A] @ ''  '' @ [CHR 0x22] @ ''name'' @ [CHR 0x22] @ '': ''
             @ [CHR 0x22] @ ''delete_file'' @ [CHR 0x22] @ [CHR 0x0A] @ ''}'')
      else if v = PDict [(''path'', PStr ''/tmp/x'')] then
        Inr (''{'' @ [CHR 0x0A] @ ''  '' @ [CHR 0x22] @ ''path'' @ [CHR 0x22] @ '': ''
             @ [CHR 0x22] @ ''/tmp/x'' @ [CHR 0x22] @ [CHR 0x0A] @ ''}'')
      else Inl (Exception ''TypeError'' ''Object is not JSON serializable''))"

text \<open>A completion client that always gives the same answer.\<close>

definition fixed_client :: "string \<Rightarrow> unit model_client" where
  "fixed_client answer = (\<lambda>msgs w. (Inr (''assistant'', answer), w))"

definition confirm_prompt :: chat_message where
  "confirm_prompt =
     \<lparr>role = ''assistant'', content = ''Delete /tmp/x?'', type = ''confirm'',
      sender = [], to_user = True\<rparr>"

definition user_says :: "string \<Rightarrow> chat_message" where
  "user_says text =
     \<lparr>role = ''user'', content = text, type = [], sender = [], to_user = False\<rparr>"

text \<open>A reply \<open>no\<close> to a confirmation prompt, in a history whose flag is still set.\<close>

definition stale_history :: chat_history where
  "stale_history =
     \<lparr>reply = None, messages = [confirm_prompt, user_says ''no''],
      extensions = [(''user_confirmed'', PBool True)]\<rparr>"

definition pipeline :: sequential where
  "pipeline =
     \<lparr>agent_types = [''extract'', ''translate'', ''summarise''],
      address = \<lparr>addr_name = ''pipeline'', addr_id = ''s1''\<rparr>,
      reply_address = None\<rparr>"

definition caller :: address where
  "caller = \<lparr>addr_name = ''caller'', addr_id = ''c7''\<rparr>"

definition chunk :: "string \<Rightarrow> chat_message" where
  "chunk text =
     \<lparr>role = ''assistant'', content = text, type = [], sender = [], to_user = False\<rparr>"

section \<open>Properties of dictionaries\<close>

lemma map_of_dict_set: "map_of (dict_set d k v) = (map_of d)(k \<mapsto> v)"
  by (induction d k v rule: dict_set.induct) (auto simp: fun_eq_iff)

lemma dict_get_dict_set_same: "dict_get (dict_set d k v) k dflt = v"
  by (simp add: dict_get_def map_of_dict_set)

section \<open>Properties of the guards and the agents\<close>

lemma gate_closed_falsy: "\<not> truthy ctx \<Longrightarrow> gate_closed flag ctx = Inr False"
  by (simp add: gate_closed_def)

lemma gate_closed_dict: "d \<noteq> [] \<Longrightarrow> gate_closed flag (PDict d) = Inr (\<not> truthy (flag d))"
  by (simp add: gate_closed_def on_value_def)

lemma call_confirm:
  "call (confirm str_format template func) args kwargs w =
     (case gate_closed user_confirmed (dict_get kwargs ''ctx'' PNone) of
        Inl exc \<Rightarrow> (Inl exc, w)
      | Inr True \<Rightarrow>
          (case str_format template kwargs of
             Inl exc \<Rightarrow> (Inl exc, w)
           | Inr text \<Rightarrow>
               (Inr (Message \<lparr>role = ''assistant'', content = text, type = ''confirm'',
                              sender = [], to_user = True\<rparr>), w))
      | Inr False \<Rightarrow> call func args kwargs w)"
  by (simp add: confirm_def Let_def)

lemma call_counted:
  "call (counted func) args kwargs (n, w) =
     (fst (call func args kwargs w), (Suc n, snd (call func args kwargs w)))"
  by (simp add: counted_def split: prod.splits)

text \<open>
  C1, as amended. For a call whose \<open>ctx\<close> is a non-empty mapping: if the
  \<open>user_confirmed\<close> flag of the context is false, the guard does not invoke the
  tool; it returns what formatting the template with the keyword arguments gives, as
  the content of an assistant message with \<open>type="confirm"\<close> and \<open>to_user=True\<close>
  (or raises the exception of the formatting). If the flag is true, the tool is
  invoked once and its outcome is the outcome of the guard.
\<close>

theorem confirm_guard:
  assumes "dict_get kwargs ''ctx'' PNone = PDict d" and "d \<noteq> []"
  shows "(\<not> truthy (user_confirmed d) \<longrightarrow>
            call (confirm str_format template func) args kwargs w =
              (case str_format template kwargs of
                 Inl exc \<Rightarrow> (Inl exc, w)
               | Inr text \<Rightarrow>
                   (Inr (Message \<lparr>role = ''assistant'', content = text, type = ''confirm'',
                                  sender = [], to_user = True\<rparr>), w))
            \<and> snd (call (confirm str_format template (counted func)) args kwargs (n, w)) = (n, w))
       \<and> (truthy (user_confirmed d) \<longrightarrow>
            call (confirm str_format template func) args kwargs w = call func args kwargs w
            \<and> snd (call (confirm str_format template (counted func)) args kwargs (n, w)) =
                (Suc n, snd (call func args kwargs w)))"
  using assms
  by (auto simp: call_confirm gate_closed_dict call_counted split: sum.splits)

text \<open>
  The guard on \<open>delete_file\<close> with the template \<open>Delete {path}?\<close>: a closed gate
  gives the prompt and leaves the tool alone, an open gate runs the tool.
\<close>

theorem confirm_guard_witness:
  "call (confirm format_fields ''Delete {path}?'' delete_file) []
     [(''path'', PStr ''/tmp/x''), (''ctx'', PDict [(''user_confirmed'', PBool False)])] ()
     = (Inr (Message \<lparr>role = ''assistant'', content = ''Delete /tmp/x?'', type = ''confirm'',
                      sender = [], to_user = True\<rparr>), ())
   \<and> snd (call (confirm format_fields ''Delete {path}?'' (counted delete_file)) []
           [(''path'', PStr ''/tmp/x''), (''ctx'', PDict [(''user_confirmed'', PBool False)])]
           (0, ())) = (0, ())
   \<and> call (confirm format_fields ''Delete {path}?'' delete_file) []
       [(''path'', PStr ''/tmp/x''), (''ctx'', PDict [(''user_confirmed'', PBool True)])] ()
     = (Inr (Value (PStr ''deleted'')), ())
   \<and> snd (call (confirm format_fields ''Delete {path}?'' (counted delete_file)) []
           [(''path'', PStr ''/tmp/x''), (''ctx'', PDict [(''user_confirmed'', PBool True)])]
           (0, ())) = (1, ())"
  using
    confirm_guard [of "[(''path'', PStr ''/tmp/x''), (''ctx'', PDict [(''user_confirmed'', PBool False)])]"
      "[(''user_confirmed'', PBool False)]" format_fields "''Delete {path}?''" delete_file "[]" "()" 0]
    confirm_guard [of "[(''path'', PStr ''/tmp/x''), (''ctx'', PDict [(''user_confirmed'', PBool True)])]"
      "[(''user_confirmed'', PBool True)]" format_fields "''Delete {path}?''" delete_file "[]" "()" 0]
  by (simp add: dict_get_def user_confirmed_def delete_file_def)

text \<open>
  C1 as stated fails for an empty context: the flag of \<open>{}\<close> is false, but the guard
  invokes the tool and returns its result.
\<close>

theorem confirm_guard_counterexample:
  "dict_get [(''path'', PStr ''/tmp/x''), (''ctx'', PDict [])] ''ctx'' PNone = PDict []
   \<and> user_confirmed [] = PBool False
   \<and> call (confirm format_fields ''Delete {path}?'' (counted delete_file)) []
       [(''path'', PStr ''/tmp/x''), (''ctx'', PDict [])] (0, ())
     = (Inr (Value (PStr ''deleted'')), (1, ()))"
  by (simp add: call_confirm gate_closed_def dict_get_def user_confirmed_def call_counted delete_file_def)


lemma call_submit:
  "call (submit function_to_jsonschema json_dumps str_format template func) args kwargs w =
     (case gate_closed user_submitted (dict_get kwargs ''ctx'' PNone) of
        Inl exc \<Rightarrow> (Inl exc, w)
      | Inr True \<Rightarrow>
          (case submit_message function_to_jsonschema json_dumps str_format
                  (if template \<noteq> [] then template else default_template) func kwargs of
             Inl exc \<Rightarrow> (Inl exc, w)
           | Inr m \<Rightarrow> (Inr (Message m), w))
      | Inr False \<Rightarrow> call func args kwargs w)"
  by (simp add: submit_def Let_def)

text \<open>
  C5. A call whose keyword arguments have no \<open>ctx\<close>, or a falsy one, passes both
  guards: the wrapped tool is invoked once, with the same arguments, and its outcome
  is returned, whatever the arguments say about \<open>user_confirmed\<close> and
  \<open>user_submitted\<close>.
\<close>

theorem falsy_ctx_bypasses_gates:
  assumes "map_of kwargs ''ctx'' = None \<or> (\<exists>v. map_of kwargs ''ctx'' = Some v \<and> \<not> truthy v)"
  shows "call (confirm str_format template func) args kwargs w = call func args kwargs w
       \<and> call (submit function_to_jsonschema json_dumps str_format template func) args kwargs w
           = call func args kwargs w
       \<and> snd (call (confirm str_format template (counted func)) args kwargs (n, w))
           = (Suc n, snd (call func args kwargs w))
       \<and> snd (call (submit function_to_jsonschema' json_dumps str_format template (counted func))
                 args kwargs (n, w))
           = (Suc n, snd (call func args kwargs w))"
proof -
  from assms have "\<not> truthy (dict_get kwargs ''ctx'' PNone)"
    by (auto simp: dict_get_def)
  then show ?thesis
    by (simp add: call_confirm call_submit gate_closed_falsy call_counted)
qed

text \<open>Calls without \<open>ctx\<close>, with \<open>ctx=None\<close> and with \<open>ctx={}\<close>.\<close>

theorem falsy_ctx_bypasses_gates_witness:
  "call (confirm format_fields ''Delete {path}?'' delete_file) [] [(''path'', PStr ''/tmp/x'')] ()
     = (Inr (Value (PStr ''deleted'')), ())
   \<and> call (submit example_schema example_dumps format_fields [] delete_file) []
         [(''path'', PStr ''/tmp/x''), (''ctx'', PNone)] ()
     = (Inr (Value (PStr ''deleted'')), ())
   \<and> snd (call (submit example_schema example_dumps format_fields [] (counted delete_file)) []
         [(''path'', PStr ''/tmp/x''), (''ctx'', PDict [])] (0, ())) = (1, ())"
  using
    falsy_ctx_bypasses_gates [of "[(''path'', PStr ''/tmp/x'')]" format_fields
      "''Delete {path}?''" delete_file "[]" "()" example_schema example_dumps 0 example_schema]
    falsy_ctx_bypasses_gates [of "[(''path'', PStr ''/tmp/x''), (''ctx'', PNone)]" format_fields
      "[]" delete_file "[]" "()" example_schema example_dumps 0 example_schema]
    falsy_ctx_bypasses_gates [of "[(''path'', PStr ''/tmp/x''), (''ctx'', PDict [])]" format_fields
      "[]" delete_file "[]" "()" example_schema example_dumps 0 example_schema]
  by (simp add: delete_file_def)

lemma map_of_filter_ctx:
  "map_of (filter (\<lambda>(k, v). k \<noteq> c) kwargs) k = (if k = c then None else map_of kwargs k)"
  by (induction kwargs) auto

lemma keys_filter_ctx:
  "fst ` set (filter (\<lambda>(k, v). k \<noteq> c) kwargs) = fst ` set kwargs - {c}"
  by (induction kwargs) auto

lemma submit_message_Inr:
  assumes "function_to_jsonschema func = Inr raw" and "getitem raw ''function'' = Inr fn"
    and "json_dumps fn = Inr schema_json"
    and "json_dumps (PDict (filter (\<lambda>(k, v). k \<noteq> ''ctx'') kwargs)) = Inr input_json"
    and "str_format template [(''schema'', PStr schema_json), (''input'', PStr input_json)] = Inr text"
  shows "submit_message function_to_jsonschema json_dumps str_format template func kwargs =
           Inr \<lparr>role = ''assistant'', content = text, type = ''submit'', sender = [], to_user = True\<rparr>"
  using assms by (simp add: submit_message_def on_value_def)

text \<open>
  C6, as amended. For a call whose \<open>ctx\<close> is a non-empty mapping with a false
  \<open>user_submitted\<close> flag, and when the schema, its JSON text, the JSON text of the
  input and the formatting are obtained without an exception: the guard does not
  invoke the tool and returns an assistant message with \<open>type="submit"\<close> and
  \<open>to_user=True\<close>, whose content is the template (the default form for an empty
  template) formatted with \<open>schema\<close>, the JSON text of \<open>raw["function"]\<close>, and
  \<open>input\<close>, the JSON text of a dictionary that has exactly the keyword arguments
  other than \<open>ctx\<close>, with their values.
\<close>

theorem submit_guard:
  assumes "dict_get kwargs ''ctx'' PNone = PDict d" and "d \<noteq> []"
    and "\<not> truthy (user_submitted d)"
    and "input = filter (\<lambda>(k, v). k \<noteq> ''ctx'') kwargs"
    and "function_to_jsonschema func = Inr raw" and "getitem raw ''function'' = Inr fn"
    and "json_dumps fn = Inr schema_json"
    and "json_dumps (PDict input) = Inr input_json"
    and "str_format (if template \<noteq> [] then template else default_template)
           [(''schema'', PStr schema_json), (''input'', PStr input_json)] = Inr text"
  shows "call (submit function_to_jsonschema json_dumps str_format template func) args kwargs w =
           (Inr (Message \<lparr>role = ''assistant'', content = text, type = ''submit'',
                           sender = [], to_user = True\<rparr>), w)
       \<and> fst ` set input = fst ` set kwargs - {''ctx''}
       \<and> (\<forall>k. k \<noteq> ''ctx'' \<longrightarrow> map_of input k = map_of kwargs k)
       \<and> snd (call (submit function_to_jsonschema' json_dumps str_format template (counted func))
                 args kwargs (n, w)) = (n, w)"
proof -
  have gate: "gate_closed user_submitted (dict_get kwargs ''ctx'' PNone) = Inr True"
    using assms(1-3) by (simp add: gate_closed_dict)
  have msg: "submit_message function_to_jsonschema json_dumps str_format
               (if template \<noteq> [] then template else default_template) func kwargs =
             Inr \<lparr>role = ''assistant'', content = text, type = ''submit'',
                  sender = [], to_user = True\<rparr>"
    using assms(4-9) by (intro submit_message_Inr) auto
  have "call (submit function_to_jsonschema json_dumps str_format template func) args kwargs w =
           (Inr (Message \<lparr>role = ''assistant'', content = text, type = ''submit'',
                           sender = [], to_user = True\<rparr>), w)"
    by (simp only: call_submit gate msg sum.case bool.case)
  moreover have "fst ` set input = fst ` set kwargs - {''ctx''}"
    using assms(4) by (simp only: keys_filter_ctx)
  moreover have "\<forall>k. k \<noteq> ''ctx'' \<longrightarrow> map_of input k = map_of kwargs k"
    using assms(4) by (simp add: map_of_filter_ctx)
  moreover have "snd (call (submit function_to_jsonschema' json_dumps str_format template (counted func))
                 args kwargs (n, w)) = (n, w)"
    by (simp add: call_submit gate split: sum.splits)
  ultimately show ?thesis by blast
qed

text \<open>The submit guard on \<open>delete_file\<close> with the default form.\<close>

theorem submit_guard_witness:
  "call (submit example_schema example_dumps format_fields [] delete_file) []
     [(''path'', PStr ''/tmp/x''), (''ctx'', PDict [(''user_confirmed'', PBool False)])] ()
     = (Inr (Message
          \<lparr>role = ''assistant'',
           content =
             ''Please fill in the input form below:'' @ [CHR 0x0A, CHR 0x0A] @
             ''```schema'' @ [CHR 0x0A] @
             ''{'' @ [CHR 0x0A] @ ''  '' @ [CHR 0x22] @ ''name'' @ [CHR 0x22] @ '': ''
               @ [CHR 0x22] @ ''delete_file'' @ [CHR 0x22] @ [CHR 0x0A] @ ''}'' @ [CHR 0x0A] @
             ''```'' @ [CHR 0x0A, CHR 0x0A] @
             ''```input'' @ [CHR 0x0A] @
             ''{'' @ [CHR 0x0A] @ ''  '' @ [CHR 0x22] @ ''path'' @ [CHR 0x22] @ '': ''
               @ [CHR 0x22] @ ''/tmp/x'' @ [CHR 0x22] @ [CHR 0x0A] @ ''}'' @ [CHR 0x0A] @
             ''```'',
           type = ''submit'', sender = [], to_user = True\<rparr>), ())
   \<and> fst ` set [(''path'', PStr ''/tmp/x'')]
       = fst ` set [(''path'', PStr ''/tmp/x''), (''ctx'', PDict [(''user_confirmed'', PBool False)])]
         - {''ctx''}
   \<and> snd (call (submit example_schema example_dumps format_fields [] (counted delete_file)) []
         [(''path'', PStr ''/tmp/x''), (''ctx'', PDict [(''user_confirmed'', PBool False)])]
         (0, ())) = (0, ())"
  using
    submit_guard [of "[(''path'', PStr ''/tmp/x''), (''ctx'', PDict [(''user_confirmed'', PBool False)])]"
      "[(''user_confirmed'', PBool False)]" "[(''path'', PStr ''/tmp/x'')]"
      example_schema delete_file
      "[(''type'', PStr ''function''), (''function'', PDict [(''name'', PStr ''delete_file'')])]"
      "PDict [(''name'', PStr ''delete_file'')]" example_dumps
      "''{'' @ [CHR 0x0A] @ ''  '' @ [CHR 0x22] @ ''name'' @ [CHR 0x22] @ '': ''
               @ [CHR 0x22] @ ''delete_file'' @ [CHR 0x22] @ [CHR 0x0A] @ ''}''"
      "''{'' @ [CHR 0x0A] @ ''  '' @ [CHR 0x22] @ ''path'' @ [CHR 0x22] @ '': ''
               @ [CHR 0x22] @ ''/tmp/x'' @ [CHR 0x22] @ [CHR 0x0A] @ ''}''"
      format_fields "[]"
      "''Please fill in the input form below:'' @ [CHR 0x0A, CHR 0x0A] @
             ''```schema'' @ [CHR 0x0A] @
             ''{'' @ [CHR 0x0A] @ ''  '' @ [CHR 0x22] @ ''name'' @ [CHR 0x22] @ '': ''
               @ [CHR 0x22] @ ''delete_file'' @ [CHR 0x22] @ [CHR 0x0A] @ ''}'' @ [CHR 0x0A] @
             ''```'' @ [CHR 0x0A, CHR 0x0A] @
             ''```input'' @ [CHR 0x0A] @
             ''{'' @ [CHR 0x0A] @ ''  '' @ [CHR 0x22] @ ''path'' @ [CHR 0x22] @ '': ''
               @ [CHR 0x22] @ ''/tmp/x'' @ [CHR 0x22] @ [CHR 0x0A] @ ''}'' @ [CHR 0x0A] @
             ''```''"
      "[]" "()" example_schema 0]
  by (simp add: dict_get_def user_submitted_def example_schema_def example_dumps_def
      getitem_def default_template_def)


text \<open>
  C6 as stated fails for an empty context: the flag of \<open>{}\<close> is false, but the guard
  invokes the tool and returns its result.
\<close>

theorem submit_guard_counterexample:
  "dict_get [(''path'', PStr ''/tmp/x''), (''ctx'', PDict [])] ''ctx'' PNone = PDict []
   \<and> user_submitted [] = PBool False
   \<and> call (submit example_schema example_dumps format_fields [] (counted delete_file)) []
       [(''path'', PStr ''/tmp/x''), (''ctx'', PDict [])] (0, ())
     = (Inr (Value (PStr ''deleted'')), (1, ()))"
  by (simp add: call_submit gate_closed_def dict_get_def user_submitted_def call_counted delete_file_def)

lemma call_wrap_error:
  "call (wrap_error func) args kwargs w =
     (case fill_defaults (parameters func) kwargs of
         Inl exc \<Rightarrow> (except_Exception exc, w)
       | Inr kwargs' \<Rightarrow>
           (case call func args kwargs' w of
              (Inl exc, w') \<Rightarrow> (except_Exception exc, w')
            | (Inr r, w') \<Rightarrow> (Inr r, w')))"
  by (simp add: wrap_error_def)

lemma parameters_counted: "parameters (counted func) = parameters func"
  by (simp add: counted_def)

lemma map_of_snoc:
  "map_of (kwargs @ [(name, d)]) k =
     (case map_of kwargs k of Some v \<Rightarrow> Some v | None \<Rightarrow> if k = name then Some d else None)"
  by (simp add: map_add_def split: option.splits)

lemma fill_defaults_map_of:
  "distinct (map fst ps) \<Longrightarrow> fill_defaults ps kwargs = Inr kwargs' \<Longrightarrow>
   map_of kwargs' k =
     (case map_of kwargs k of
        Some v \<Rightarrow> Some v
      | None \<Rightarrow> (case map_of ps k of Some (FieldInfo (Default v)) \<Rightarrow> Some v | _ \<Rightarrow> None))"
proof (induction ps kwargs arbitrary: kwargs' rule: fill_defaults.induct)
  case (1 kwargs)
  then show ?case by (auto split: option.splits)
next
  case (2 name dflt rest kwargs)
  from "2.prems" have dist: "distinct (map fst rest)" and fresh: "map_of rest name = None"
    by (auto simp: map_of_eq_None_iff)
  show ?case
  proof (cases "map_of kwargs name = None")
    case absent: True
    show ?thesis
    proof (cases dflt)
      case PydanticUndefined
      with absent "2.prems" show ?thesis by simp
    next
      case (Default d)
      with absent "2.prems" have run: "fill_defaults rest (kwargs @ [(name, d)]) = Inr kwargs'"
        by simp
      have "map_of kwargs' k =
              (case map_of (kwargs @ [(name, d)]) k of
                 Some v \<Rightarrow> Some v
               | None \<Rightarrow> (case map_of rest k of Some (FieldInfo (Default v)) \<Rightarrow> Some v | _ \<Rightarrow> None))"
        using "2.IH"(1) [OF absent Default dist run] .
      with absent Default fresh show ?thesis
        by (cases "k = name") (simp_all add: map_of_snoc del: map_of_append split: option.splits)
    qed
  next
    case present: False
    with "2.prems" have run: "fill_defaults rest kwargs = Inr kwargs'" by simp
    from "2.IH"(2) [OF present dist run] present show ?thesis
      by (cases "k = name") (auto split: option.splits)
  qed
next
  case (3 name rest kwargs)
  then have "map_of rest name = None" by (auto simp: map_of_eq_None_iff)
  with 3 show ?case
    by (cases "k = name") (simp_all split: option.splits)
next
  case (4 name v rest kwargs)
  then have "map_of rest name = None" by (auto simp: map_of_eq_None_iff)
  with 4 show ?case
    by (cases "k = name") (simp_all split: option.splits)
qed


lemma fill_defaults_Inl:
  "fill_defaults ps kwargs = Inl exc \<Longrightarrow>
   \<exists>name. (name, FieldInfo PydanticUndefined) \<in> set ps \<and> map_of kwargs name = None
     \<and> exc = Exception ''ValueError'' (''Missing required argument '' @ quoted name)"
proof (induction ps kwargs rule: fill_defaults.induct)
  case (1 kwargs)
  then show ?case by simp
next
  case (2 name dflt rest kwargs)
  show ?case
  proof (cases "map_of kwargs name = None")
    case absent: True
    show ?thesis
    proof (cases dflt)
      case PydanticUndefined
      with absent "2.prems" show ?thesis by auto
    next
      case (Default d)
      with absent "2.prems" have "fill_defaults rest (kwargs @ [(name, d)]) = Inl exc"
        by simp
      from "2.IH"(1) [OF absent Default this]
      obtain missing where "(missing, FieldInfo PydanticUndefined) \<in> set rest"
        and "map_of (kwargs @ [(name, d)]) missing = None"
        and "exc = Exception ''ValueError'' (''Missing required argument '' @ quoted missing)"
        by blast
      then show ?thesis
        by (auto simp: map_of_snoc simp del: map_of_append split: option.splits)
    qed
  next
    case present: False
    with "2.prems" have "fill_defaults rest kwargs = Inl exc" by simp
    from "2.IH"(2) [OF present this] show ?thesis by auto
  qed
next
  case (3 name rest kwargs)
  then show ?case by auto
next
  case (4 name v rest kwargs)
  then show ?case by auto
qed

lemma fill_defaults_raises_Exception:
  "fill_defaults ps kwargs = Inl exc \<Longrightarrow> is_Exception exc"
  using fill_defaults_Inl [of ps kwargs exc] by auto

text \<open>
  C4, as amended. A call of an error-wrapped tool never raises an instance of
  \<open>Exception\<close>. When the wrapped tool, called with the keyword arguments after the
  defaults are filled in, raises an instance \<open>exc\<close> of \<open>Exception\<close>, the call returns
  the string \<open>"Error: "\<close> followed by \<open>str(exc)\<close>; what the tool raises that is not an
  instance of \<open>Exception\<close> is raised by the call; and when the tool returns, the call
  returns the same result.
\<close>

theorem wrap_error_result:
  "(\<forall>exc w'. call (wrap_error func) args kwargs w = (Inl exc, w') \<longrightarrow> \<not> is_Exception exc)
   \<and> (\<forall>kwargs' exc w'.
         fill_defaults (parameters func) kwargs = Inr kwargs'
         \<and> call func args kwargs' w = (Inl exc, w') \<and> is_Exception exc
         \<longrightarrow> call (wrap_error func) args kwargs w
              = (Inr (Value (PStr (''Error: '' @ exn_str exc))), w'))
   \<and> (\<forall>kwargs' exc w'.
         fill_defaults (parameters func) kwargs = Inr kwargs'
         \<and> call func args kwargs' w = (Inl exc, w') \<and> \<not> is_Exception exc
         \<longrightarrow> call (wrap_error func) args kwargs w = (Inl exc, w'))
   \<and> (\<forall>kwargs' r w'.
         fill_defaults (parameters func) kwargs = Inr kwargs'
         \<and> call func args kwargs' w = (Inr r, w')
         \<longrightarrow> call (wrap_error func) args kwargs w = (Inr r, w'))"
proof (intro conjI allI impI)
  fix exc w'
  assume "call (wrap_error func) args kwargs w = (Inl exc, w')"
  then show "\<not> is_Exception exc"
    by (auto simp: call_wrap_error except_Exception_def
        split: sum.splits prod.splits if_splits)
next
  fix kwargs' exc w'
  assume "fill_defaults (parameters func) kwargs = Inr kwargs'
          \<and> call func args kwargs' w = (Inl exc, w') \<and> is_Exception exc"
  then show "call (wrap_error func) args kwargs w
              = (Inr (Value (PStr (''Error: '' @ exn_str exc))), w')"
    by (simp add: call_wrap_error except_Exception_def error_text_def)
next
  fix kwargs' exc w'
  assume "fill_defaults (parameters func) kwargs = Inr kwargs'
          \<and> call func args kwargs' w = (Inl exc, w') \<and> \<not> is_Exception exc"
  then show "call (wrap_error func) args kwargs w = (Inl exc, w')"
    by (simp add: call_wrap_error except_Exception_def)
next
  fix kwargs' r w'
  assume "fill_defaults (parameters func) kwargs = Inr kwargs'
          \<and> call func args kwargs' w = (Inr r, w')"
  then show "call (wrap_error func) args kwargs w = (Inr r, w')"
    by (simp add: call_wrap_error)
qed

text \<open>A tool that raises \<open>ValueError("bad")\<close>, and a tool that returns.\<close>

theorem wrap_error_result_witness:
  "call (wrap_error failing_tool) [] [] () = (Inr (Value (PStr ''Error: bad'')), ())
   \<and> call (wrap_error delete_file) [] [(''path'', PStr ''/tmp/x'')] ()
       = (Inr (Value (PStr ''deleted'')), ())"
  using wrap_error_result [of failing_tool "[]" "[]" "()"]
    wrap_error_result [of delete_file "[]" "[(''path'', PStr ''/tmp/x'')]" "()"]
  by (simp add: failing_tool_def delete_file_def)

text \<open>
  C4 as stated fails for what is raised and is not an instance of \<open>Exception\<close>: the
  \<open>asyncio.CancelledError\<close> of a cancelled tool passes \<open>except Exception\<close> and is
  raised by the call.
\<close>

theorem wrap_error_result_counterexample:
  "call cancelled_tool [] [] () = (Inl (BaseException ''CancelledError'' []), ())
   \<and> call (wrap_error cancelled_tool) [] [] () = (Inl (BaseException ''CancelledError'' []), ())"
  by (simp add: call_wrap_error except_Exception_def cancelled_tool_def)

lemma fill_defaults_required:
  "distinct (map fst ps) \<Longrightarrow> (name, FieldInfo PydanticUndefined) \<in> set ps \<Longrightarrow>
   map_of kwargs name = None \<Longrightarrow> isl (fill_defaults ps kwargs)"
proof (induction ps kwargs rule: fill_defaults.induct)
  case (1 kwargs)
  then show ?case by simp
next
  case (2 p dflt rest kwargs)
  show ?case
  proof (cases "name = p")
    case True
    with "2.prems" have "dflt = PydanticUndefined"
      by (auto simp: image_iff)
    with True "2.prems" show ?thesis by simp
  next
    case False
    with "2.prems" have mem: "(name, FieldInfo PydanticUndefined) \<in> set rest"
      and dist: "distinct (map fst rest)" by auto
    show ?thesis
    proof (cases "map_of kwargs p = None")
      case absent: True
      show ?thesis
      proof (cases dflt)
        case PydanticUndefined
        with absent show ?thesis by simp
      next
        case (Default d)
        from False "2.prems" have "map_of (kwargs @ [(p, d)]) name = None"
          by (simp add: map_of_snoc del: map_of_append)
        from "2.IH"(1) [OF absent Default dist mem this] absent Default
        show ?thesis by simp
      qed
    next
      case present: False
      from "2.IH"(2) [OF present dist mem "2.prems"(3)] present show ?thesis by auto
    qed
  qed
next
  case (3 p rest kwargs)
  then show ?case by auto
next
  case (4 p v rest kwargs)
  then show ?case by auto
qed

lemma map_of_distinct_mem:
  "distinct (map fst ps) \<Longrightarrow> (k, v) \<in> set ps \<Longrightarrow> map_of ps k = Some v"
  by simp

text \<open>
  C9. For a tool whose parameters have distinct names, as those of every Python
  signature do: when filling the defaults succeeds, the tool is invoked with keyword
  arguments that keep every supplied argument and give every absent parameter
  declared with a \<open>FieldInfo\<close> default that default, and an instance of \<open>Exception\<close>
  that it raises becomes the returned \<open>"Error: ..."\<close> text; filling succeeds when no
  parameter declared with a \<open>FieldInfo\<close> without default is absent; and when such
  a parameter is absent, the call returns
  \<open>"Error: Missing required argument '<name>'"\<close> for an absent required parameter
  and the tool is not invoked.
\<close>

theorem wrap_error_defaults:
  assumes "distinct (map fst (parameters func))"
  shows "(\<forall>kwargs'. fill_defaults (parameters func) kwargs = Inr kwargs' \<longrightarrow>
            call (wrap_error func) args kwargs w =
              (case call func args kwargs' w of
                 (Inl exc, w') \<Rightarrow>
                   (if is_Exception exc then Inr (Value (PStr (''Error: '' @ exn_str exc)))
                    else Inl exc, w')
               | (Inr r, w') \<Rightarrow> (Inr r, w'))
            \<and> (\<forall>name v. map_of kwargs name = Some v \<longrightarrow> map_of kwargs' name = Some v)
            \<and> (\<forall>name d. (name, FieldInfo (Default d)) \<in> set (parameters func)
                  \<and> map_of kwargs name = None \<longrightarrow> map_of kwargs' name = Some d))
       \<and> ((\<forall>name. (name, FieldInfo PydanticUndefined) \<in> set (parameters func)
               \<longrightarrow> map_of kwargs name \<noteq> None)
            \<longrightarrow> (\<exists>kwargs'. fill_defaults (parameters func) kwargs = Inr kwargs'))
       \<and> (\<forall>name. (name, FieldInfo PydanticUndefined) \<in> set (parameters func)
              \<and> map_of kwargs name = None \<longrightarrow>
            (\<exists>missing. (missing, FieldInfo PydanticUndefined) \<in> set (parameters func)
               \<and> map_of kwargs missing = None
               \<and> call (wrap_error func) args kwargs w =
                   (Inr (Value (PStr (''Error: Missing required argument '' @ quoted missing))), w))
            \<and> snd (call (wrap_error (counted func)) args kwargs (n, w)) = (n, w))"
proof (intro conjI allI impI)
  fix kwargs'
  assume run: "fill_defaults (parameters func) kwargs = Inr kwargs'"
  then show "call (wrap_error func) args kwargs w =
              (case call func args kwargs' w of
                 (Inl exc, w') \<Rightarrow>
                   (if is_Exception exc then Inr (Value (PStr (''Error: '' @ exn_str exc)))
                    else Inl exc, w')
               | (Inr r, w') \<Rightarrow> (Inr r, w'))"
    by (simp add: call_wrap_error except_Exception_def error_text_def
        split: prod.splits sum.splits)
  {
    fix name v
    assume "map_of kwargs name = Some v"
    with fill_defaults_map_of [OF assms run, of name]
    show "map_of kwargs' name = Some v" by simp
  next
    fix name d
    assume a: "(name, FieldInfo (Default d)) \<in> set (parameters func) \<and> map_of kwargs name = None"
    then have "map_of (parameters func) name = Some (FieldInfo (Default d))"
      using map_of_distinct_mem [OF assms] by blast
    with a fill_defaults_map_of [OF assms run, of name]
    show "map_of kwargs' name = Some d" by simp
  }
next
  assume "\<forall>name. (name, FieldInfo PydanticUndefined) \<in> set (parameters func)
               \<longrightarrow> map_of kwargs name \<noteq> None"
  with fill_defaults_Inl [of "parameters func" kwargs]
  show "\<exists>kwargs'. fill_defaults (parameters func) kwargs = Inr kwargs'"
    by (cases "fill_defaults (parameters func) kwargs") auto
next
  fix name
  assume req: "(name, FieldInfo PydanticUndefined) \<in> set (parameters func)
              \<and> map_of kwargs name = None"
  with fill_defaults_required [OF assms] have "isl (fill_defaults (parameters func) kwargs)"
    by blast
  then obtain exc where exc: "fill_defaults (parameters func) kwargs = Inl exc"
    by (auto simp: isl_def)
  from fill_defaults_Inl [OF exc] exc
  show "\<exists>missing. (missing, FieldInfo PydanticUndefined) \<in> set (parameters func)
               \<and> map_of kwargs missing = None
               \<and> call (wrap_error func) args kwargs w =
                   (Inr (Value (PStr (''Error: Missing required argument '' @ quoted missing))), w)"
    by (auto simp: call_wrap_error except_Exception_def error_text_def)
  from exc show "snd (call (wrap_error (counted func)) args kwargs (n, w)) = (n, w)"
    by (simp add: call_wrap_error parameters_counted)
qed


text \<open>\<open>weather\<close> called without \<open>unit\<close>, and without \<open>city\<close>.\<close>

theorem wrap_error_defaults_witness:
  "distinct (map fst (parameters weather))
   \<and> call (wrap_error weather) [] [(''city'', PStr ''Oslo'')] ()
       = (Inr (Value (PDict [(''city'', PStr ''Oslo''), (''unit'', PStr ''C'')])), ())
   \<and> call (wrap_error weather) [] [(''unit'', PStr ''F'')] ()
       = (Inr (Value (PStr (''Error: Missing required argument '' @ [CHR 0x27] @ ''city''
                            @ [CHR 0x27]))), ())
   \<and> snd (call (wrap_error (counted weather)) [] [(''unit'', PStr ''F'')] (0, ())) = (0, ())"
proof -
  have d: "distinct (map fst (parameters weather))"
    by (simp add: weather_def)
  have fill: "fill_defaults (parameters weather) [(''city'', PStr ''Oslo'')]
                = Inr [(''city'', PStr ''Oslo''), (''unit'', PStr ''C'')]"
    by (simp add: weather_def)
  have absent: "(''city'', FieldInfo PydanticUndefined) \<in> set (parameters weather)
                \<and> map_of [(''unit'', PStr ''F'')] ''city'' = None"
    by (simp add: weather_def)
  from wrap_error_defaults [OF d, of "[(''city'', PStr ''Oslo'')]" "[]" "()" 0] fill
  have "call (wrap_error weather) [] [(''city'', PStr ''Oslo'')] ()
          = (Inr (Value (PDict [(''city'', PStr ''Oslo''), (''unit'', PStr ''C'')])), ())"
    by (simp add: weather_def)
  moreover from wrap_error_defaults [OF d, of "[(''unit'', PStr ''F'')]" "[]" "()" 0] absent
  have "(\<exists>missing. (missing, FieldInfo PydanticUndefined) \<in> set (parameters weather)
           \<and> call (wrap_error weather) [] [(''unit'', PStr ''F'')] ()
               = (Inr (Value (PStr (''Error: Missing required argument '' @ quoted missing))), ()))
         \<and> snd (call (wrap_error (counted weather)) [] [(''unit'', PStr ''F'')] (0, ())) = (0, ())"
    by blast
  then have "call (wrap_error weather) [] [(''unit'', PStr ''F'')] ()
       = (Inr (Value (PStr (''Error: Missing required argument '' @ [CHR 0x27] @ ''city''
                            @ [CHR 0x27]))), ())
     \<and> snd (call (wrap_error (counted weather)) [] [(''unit'', PStr ''F'')] (0, ())) = (0, ())"
    by (auto simp: weather_def quoted_def)
  ultimately show ?thesis using d by blast
qed

lemma relay_map:
  "relay child_type chunks (yielded, full_content) =
     (yielded @ map (\<lambda>resp. if sender resp = [] then resp\<lparr>sender := child_type\<rparr> else resp) chunks,
      full_content @ concat (map content chunks))"
  by (induction chunks arbitrary: yielded full_content) (simp_all add: Let_def)

text \<open>
  C7. The relay yields one chunk for every chunk of the child's stream, in the order
  of the stream: the chunk itself when it names a sender, and the chunk with the
  child's agent type as sender when it names none. When no chunk of the stream names
  a sender, every yielded chunk has the child's agent type as sender.
\<close>

theorem delegate_relay:
  "fst (delegate_handle publish_stream self msg) =
     map (\<lambda>resp. if sender resp = [] then resp\<lparr>sender := agent_type self\<rparr> else resp)
       (publish_stream \<lparr>addr_name = agent_type self, addr_id = addr_id (host_address self)\<rparr> msg)
   \<and> (\<forall>resp \<in> set (fst (delegate_handle publish_stream self msg)).
         (\<forall>chunk \<in> set (publish_stream
                           \<lparr>addr_name = agent_type self, addr_id = addr_id (host_address self)\<rparr> msg).
            sender chunk = []) \<longrightarrow> sender resp = agent_type self)"
  by (auto simp: delegate_handle_def relay_map Let_def)

text \<open>A child stream of three chunks, none with a sender.\<close>

theorem delegate_relay_witness:
  "fst (delegate_handle (\<lambda>addr msg. [chunk ''Bon'', chunk ''jour'', chunk ''!''])
          \<lparr>host_address = caller, agent_type = ''translator''\<rparr> stale_history)
     = [(chunk ''Bon'')\<lparr>sender := ''translator''\<rparr>, (chunk ''jour'')\<lparr>sender := ''translator''\<rparr>,
        (chunk ''!'')\<lparr>sender := ''translator''\<rparr>]
   \<and> map sender (fst (delegate_handle (\<lambda>addr msg. [chunk ''Bon'', chunk ''jour'', chunk ''!''])
          \<lparr>host_address = caller, agent_type = ''translator''\<rparr> stale_history))
     = [''translator'', ''translator'', ''translator'']"
  using delegate_relay [of "\<lambda>addr msg. [chunk ''Bon'', chunk ''jour'', chunk ''!'']"
      "\<lparr>host_address = caller, agent_type = ''translator''\<rparr>" stale_history]
  by (simp add: chunk_def)

text \<open>
  C8. When the lowercased input is \<open>yes\<close>, \<open>ok\<close> or \<open>1\<close> the classifier returns
  true, and when it is \<open>no\<close>, \<open>do not\<close> or \<open>0\<close> it returns false, in both cases
  without a request to the completion client. For any other input it makes one
  request, with the prompt around the input, and returns whether the reply, stripped
  and lowercased, is \<open>true\<close>; an exception of the client is raised on. Lowercasing
  and stripping are \<open>str.lower\<close> and \<open>str.strip\<close>, whatever they map a string to.
\<close>

theorem is_user_confirmed_result:
  "(str_lower text \<in> {''yes'', ''ok'', ''1''} \<longrightarrow>
      is_user_confirmed str_lower str_strip text client w = (Inr True, w)
      \<and> is_user_confirmed str_lower str_strip text (counted_client client) (n, w)
          = (Inr True, (n, w)))
   \<and> (str_lower text \<in> {''no'', ''do not'', ''0''} \<longrightarrow>
      is_user_confirmed str_lower str_strip text client w = (Inr False, w)
      \<and> is_user_confirmed str_lower str_strip text (counted_client client) (n, w)
          = (Inr False, (n, w)))
   \<and> (str_lower text \<notin> {''yes'', ''ok'', ''1'', ''no'', ''do not'', ''0''} \<longrightarrow>
      (\<forall>r answer w'.
         client [\<lparr>role = ''user'', content = prompt text, type = [], sender = [],
                  to_user = False\<rparr>] w = (Inr (r, answer), w')
         \<longrightarrow> is_user_confirmed str_lower str_strip text client w
               = (Inr (str_lower (str_strip answer) = ''true''), w')
           \<and> is_user_confirmed str_lower str_strip text (counted_client client) (n, w)
               = (Inr (str_lower (str_strip answer) = ''true''), (Suc n, w')))
      \<and> (\<forall>exc w'.
         client [\<lparr>role = ''user'', content = prompt text, type = [], sender = [],
                  to_user = False\<rparr>] w = (Inl exc, w')
         \<longrightarrow> is_user_confirmed str_lower str_strip text client w = (Inl exc, w')))"
  by (auto simp: is_user_confirmed_def chat_def counted_client_def Let_def)

text \<open>Two inputs of the quick path, and an input that goes to the client.\<close>

theorem is_user_confirmed_result_witness:
  "ascii_lower ''OK'' = ''ok'' \<and> ascii_lower ''Do Not'' = ''do not'' \<and> ascii_lower ''go ahead'' = ''go ahead''
   \<and> is_user_confirmed ascii_lower ascii_strip ''OK'' (counted_client (fixed_client ''false'')) (0, ())
       = (Inr True, (0, ()))
   \<and> is_user_confirmed ascii_lower ascii_strip ''Do Not'' (counted_client (fixed_client ''true'')) (0, ())
       = (Inr False, (0, ()))
   \<and> is_user_confirmed ascii_lower ascii_strip ''go ahead'' (counted_client (fixed_client '' True '')) (0, ())
       = (Inr True, (1, ()))
   \<and> is_user_confirmed ascii_lower ascii_strip ''go ahead'' (fixed_client ''yes, it is positive'') ()
       = (Inr False, ())"
  using
    is_user_confirmed_result [of ascii_lower "''OK''" ascii_strip "fixed_client ''false''" "()" 0]
    is_user_confirmed_result [of ascii_lower "''Do Not''" ascii_strip "fixed_client ''true''" "()" 0]
    is_user_confirmed_result [of ascii_lower "''go ahead''" ascii_strip "fixed_client '' True ''" "()" 0]
    is_user_confirmed_result [of ascii_lower "''go ahead''" ascii_strip "fixed_client ''yes, it is positive''" "()" 0]
  by (simp add: ascii_lower_def ascii_lower_char_def ascii_strip_def ascii_isspace_def fixed_client_def)

text \<open>
  C3. With no agent types the handler publishes nothing. Otherwise, when the composer
  has a reply target, or else the message carries one, the handler publishes one
  \<open>SetReplyAgent\<close> for that target to the address of the last agent type, resets the
  \<open>reply\<close> of the message, and then publishes the message to the address of the
  first agent type; with no target it publishes the message alone. All addresses
  carry the id of the composer's own address.
\<close>

theorem sequential_handle:
  "(agent_types self = [] \<longrightarrow> handle self msg ch = (msg, ch))
   \<and> (agent_types self \<noteq> [] \<longrightarrow>
        (\<forall>target.
           (reply_address self = Some target
            \<or> (reply_address self = None \<and> reply msg = Some target))
           \<longrightarrow> handle self msg ch =
                 (msg\<lparr>reply := None\<rparr>,
                  ch @ [(\<lparr>addr_name = last (agent_types self), addr_id = addr_id (address self)\<rparr>,
                         SetReplyAgent target),
                        (\<lparr>addr_name = hd (agent_types self), addr_id = addr_id (address self)\<rparr>,
                         Generic (msg\<lparr>reply := None\<rparr>))]))
        \<and> (reply_address self = None \<and> reply msg = None
           \<longrightarrow> handle self msg ch =
                 (msg,
                  ch @ [(\<lparr>addr_name = hd (agent_types self), addr_id = addr_id (address self)\<rparr>,
                         Generic msg)])))"
  by (auto simp: handle_def publish_def Let_def)


text \<open>A pipeline of three stages, an empty one, and a message without reply address.\<close>

theorem sequential_handle_witness:
  "handle pipeline \<lparr>reply = Some caller, opaque = ''text''\<rparr> []
     = (\<lparr>reply = None, opaque = ''text''\<rparr>,
        [(\<lparr>addr_name = ''summarise'', addr_id = ''s1''\<rparr>, SetReplyAgent caller),
         (\<lparr>addr_name = ''extract'', addr_id = ''s1''\<rparr>,
          Generic \<lparr>reply = None, opaque = ''text''\<rparr>)])
   \<and> handle (pipeline\<lparr>agent_types := []\<rparr>) \<lparr>reply = Some caller, opaque = ''text''\<rparr> []
     = (\<lparr>reply = Some caller, opaque = ''text''\<rparr>, [])
   \<and> handle pipeline \<lparr>reply = None, opaque = ''text''\<rparr> []
     = (\<lparr>reply = None, opaque = ''text''\<rparr>,
        [(\<lparr>addr_name = ''extract'', addr_id = ''s1''\<rparr>,
          Generic \<lparr>reply = None, opaque = ''text''\<rparr>)])"
  using sequential_handle [of pipeline "\<lparr>reply = Some caller, opaque = ''text''\<rparr>" "[]"]
    sequential_handle [of "pipeline\<lparr>agent_types := []\<rparr>" "\<lparr>reply = Some caller, opaque = ''text''\<rparr>" "[]"]
    sequential_handle [of pipeline "\<lparr>reply = None, opaque = ''text''\<rparr>" "[]"]
  by (simp add: pipeline_def)

lemma has_confirm_message_iff:
  "has_confirm_message history \<longleftrightarrow>
     (\<exists>earlier m1 m2. messages history = earlier @ [m1, m2] \<and> type m1 = ''confirm'')"
proof
  assume h: "has_confirm_message history"
  define ms where "ms = messages history"
  from h have len: "1 < length ms" and ty: "type (ms ! (length ms - 2)) = ''confirm''"
    by (simp_all add: has_confirm_message_def ms_def)
  from len have ne: "ms \<noteq> []" and ne': "butlast ms \<noteq> []"
    by (auto simp: length_greater_0_conv [symmetric] simp del: length_greater_0_conv)
  have "ms = butlast (butlast ms) @ [last (butlast ms), last ms]"
    using ne ne' by (metis append.assoc append_Cons append_Nil append_butlast_last_id)
  moreover have "last (butlast ms) = ms ! (length ms - 2)"
    using ne' len by (simp add: last_conv_nth nth_butlast numeral_2_eq_2)
  ultimately show "\<exists>earlier m1 m2. messages history = earlier @ [m1, m2] \<and> type m1 = ''confirm''"
    using ty unfolding ms_def by metis
next
  assume "\<exists>earlier m1 m2. messages history = earlier @ [m1, m2] \<and> type m1 = ''confirm''"
  then show "has_confirm_message history"
    by (auto simp: has_confirm_message_def nth_append)
qed

lemma user_confirmed_set: "user_confirmed (set_user_confirmed ctx v) = v"
  by (simp add: user_confirmed_def set_user_confirmed_def dict_get_dict_set_same)

lemma update_user_confirmed_cases:
  "update_user_confirmed str_lower str_strip client history w =
     (if truthy (user_confirmed (extensions history)) then
        (Inr (history\<lparr>extensions := set_user_confirmed (extensions history)
                 (if has_confirm_message history then user_confirmed (extensions history)
                  else PBool False)\<rparr>), w)
      else if has_confirm_message history then
        (case is_user_confirmed str_lower str_strip (content (last (messages history))) client w of
           (Inl exc, w') \<Rightarrow> (Inl exc, w')
         | (Inr b, w') \<Rightarrow>
             (Inr (history\<lparr>extensions := set_user_confirmed (extensions history) (PBool b)\<rparr>), w'))
      else (Inr (history\<lparr>extensions := set_user_confirmed (extensions history)
                    (user_confirmed (extensions history))\<rparr>), w))"
  by (simp add: update_user_confirmed_def Let_def split: prod.splits sum.splits)

text \<open>
  C2, as amended. When \<open>update_user_confirmed\<close> returns, the \<open>user_confirmed\<close> flag
  of the extensions is true exactly when the history ends with a message of type
  \<open>confirm\<close> followed by a last message, and either the flag was true on entry or
  the classification of the last message's content is affirmative. It raises only
  what the classifier raises. A history that does not end that way gets a false
  flag without a request to the client, and \<open>False\<close> itself when the flag was true on
  entry.
\<close>

theorem update_user_confirmed_flag:
  "(\<forall>history' w'.
      update_user_confirmed str_lower str_strip client history w = (Inr history', w') \<longrightarrow>
        (truthy (user_confirmed (extensions history')) \<longleftrightarrow>
           (\<exists>earlier m1 m2.
              messages history = earlier @ [m1, m2] \<and> type m1 = ''confirm''
              \<and> (truthy (user_confirmed (extensions history))
                 \<or> is_user_confirmed str_lower str_strip (content m2) client w = (Inr True, w'))))
        \<and> messages history' = messages history)
   \<and> (\<forall>exc w'.
        update_user_confirmed str_lower str_strip client history w = (Inl exc, w') \<longrightarrow>
          \<not> truthy (user_confirmed (extensions history))
          \<and> is_user_confirmed str_lower str_strip (content (last (messages history))) client w = (Inl exc, w'))
   \<and> ((\<nexists>earlier m1 m2. messages history = earlier @ [m1, m2] \<and> type m1 = ''confirm'') \<longrightarrow>
        (\<exists>history'.
           update_user_confirmed str_lower str_strip client history w = (Inr history', w)
           \<and> \<not> truthy (user_confirmed (extensions history'))
           \<and> (truthy (user_confirmed (extensions history))
              \<longrightarrow> user_confirmed (extensions history') = PBool False)))"
proof (intro conjI allI impI)
  fix history' w'
  assume run: "update_user_confirmed str_lower str_strip client history w = (Inr history', w')"
  show "messages history' = messages history"
    using run by (auto simp: update_user_confirmed_cases split: if_splits prod.splits sum.splits)
  show "truthy (user_confirmed (extensions history')) \<longleftrightarrow>
           (\<exists>earlier m1 m2.
              messages history = earlier @ [m1, m2] \<and> type m1 = ''confirm''
              \<and> (truthy (user_confirmed (extensions history))
                 \<or> is_user_confirmed str_lower str_strip (content m2) client w = (Inr True, w')))"
  proof (cases "has_confirm_message history")
    case False
    with run have "\<not> truthy (user_confirmed (extensions history'))"
      by (auto simp: update_user_confirmed_cases user_confirmed_set split: if_splits)
    with False show ?thesis
      unfolding has_confirm_message_iff by blast
  next
    case True
    then obtain earlier m1 m2 where
      ms: "messages history = earlier @ [m1, m2]" and ty: "type m1 = ''confirm''"
      unfolding has_confirm_message_iff by blast
    then have last: "last (messages history) = m2" by simp
    have shape: "\<And>e a b. messages history = e @ [a, b] \<Longrightarrow> b = m2"
      using ms by simp
    show ?thesis
    proof (cases "truthy (user_confirmed (extensions history))")
      case t: True
      with run True have "truthy (user_confirmed (extensions history'))"
        by (auto simp: update_user_confirmed_cases user_confirmed_set)
      with t ms ty show ?thesis by blast
    next
      case f: False
      with run True last obtain b where
        cls: "is_user_confirmed str_lower str_strip (content m2) client w = (Inr b, w')"
        and flag: "user_confirmed (extensions history') = PBool b"
        by (auto simp: update_user_confirmed_cases user_confirmed_set split: prod.splits sum.splits)
      show ?thesis
      proof
        assume "truthy (user_confirmed (extensions history'))"
        with flag cls have "is_user_confirmed str_lower str_strip (content m2) client w = (Inr True, w')" by simp
        with ms ty show "\<exists>earlier m1 m2.
              messages history = earlier @ [m1, m2] \<and> type m1 = ''confirm''
              \<and> (truthy (user_confirmed (extensions history))
                 \<or> is_user_confirmed str_lower str_strip (content m2) client w = (Inr True, w'))" by blast
      next
        assume "\<exists>earlier m1 m2.
              messages history = earlier @ [m1, m2] \<and> type m1 = ''confirm''
              \<and> (truthy (user_confirmed (extensions history))
                 \<or> is_user_confirmed str_lower str_strip (content m2) client w = (Inr True, w'))"
        then obtain e a b' where "messages history = e @ [a, b']"
          and "is_user_confirmed str_lower str_strip (content b') client w = (Inr True, w')"
          using f by blast
        with shape cls have "b = True" by auto
        with flag show "truthy (user_confirmed (extensions history'))" by simp
      qed
    qed
  qed
next
  fix exc w'
  assume run: "update_user_confirmed str_lower str_strip client history w = (Inl exc, w')"
  then show "\<not> truthy (user_confirmed (extensions history))"
    by (auto simp: update_user_confirmed_cases split: if_splits)
  from run show "is_user_confirmed str_lower str_strip (content (last (messages history))) client w = (Inl exc, w')"
    by (auto simp: update_user_confirmed_cases split: if_splits prod.splits sum.splits)
next
  assume "\<nexists>earlier m1 m2. messages history = earlier @ [m1, m2] \<and> type m1 = ''confirm''"
  then have "\<not> has_confirm_message history"
    unfolding has_confirm_message_iff by blast
  then show "\<exists>history'.
           update_user_confirmed str_lower str_strip client history w = (Inr history', w)
           \<and> \<not> truthy (user_confirmed (extensions history'))
           \<and> (truthy (user_confirmed (extensions history))
              \<longrightarrow> user_confirmed (extensions history') = PBool False)"
    by (auto simp: update_user_confirmed_cases user_confirmed_set)
qed


text \<open>A reply \<open>yes\<close> to a confirmation prompt, and a history without such a prompt.\<close>

theorem update_user_confirmed_flag_witness:
  "update_user_confirmed ascii_lower ascii_strip (fixed_client ''false'')
     \<lparr>reply = None, messages = [confirm_prompt, user_says ''yes''], extensions = []\<rparr> ()
     = (Inr \<lparr>reply = None, messages = [confirm_prompt, user_says ''yes''],
             extensions = [(''user_confirmed'', PBool True)]\<rparr>, ())
   \<and> truthy (user_confirmed [(''user_confirmed'', PBool True)])
   \<and> update_user_confirmed ascii_lower ascii_strip (fixed_client ''true'')
     \<lparr>reply = None, messages = [user_says ''yes''],
      extensions = [(''user_confirmed'', PBool True)]\<rparr> ()
     = (Inr \<lparr>reply = None, messages = [user_says ''yes''],
             extensions = [(''user_confirmed'', PBool False)]\<rparr>, ())"
proof -
  let ?h = "\<lparr>reply = None, messages = [confirm_prompt, user_says ''yes''], extensions = []\<rparr>"
  let ?h' = "\<lparr>reply = None, messages = [confirm_prompt, user_says ''yes''],
             extensions = [(''user_confirmed'', PBool True)]\<rparr>"
  let ?g = "\<lparr>reply = None, messages = [user_says ''yes''],
      extensions = [(''user_confirmed'', PBool True)]\<rparr>"
  have run: "update_user_confirmed ascii_lower ascii_strip (fixed_client ''false'') ?h () = (Inr ?h', ())"
    by (simp add: update_user_confirmed_cases has_confirm_message_def confirm_prompt_def
        user_says_def is_user_confirmed_def ascii_lower_def ascii_lower_char_def user_confirmed_def
        set_user_confirmed_def dict_get_def)
  have pattern: "\<exists>earlier m1 m2. messages ?h = earlier @ [m1, m2] \<and> type m1 = ''confirm''
          \<and> (truthy (user_confirmed (extensions ?h))
             \<or> is_user_confirmed ascii_lower ascii_strip (content m2) (fixed_client ''false'') () = (Inr True, ()))"
    by (rule exI [of _ "[]"], rule exI [of _ confirm_prompt], rule exI [of _ "user_says ''yes''"])
       (simp add: confirm_prompt_def user_says_def is_user_confirmed_def ascii_lower_def ascii_lower_char_def)
  from update_user_confirmed_flag [where str_lower = ascii_lower and str_strip = ascii_strip
      and client = "fixed_client ''false''" and history = ?h and w = "()"] run pattern
  have t: "truthy (user_confirmed (extensions ?h'))" by blast
  have "update_user_confirmed ascii_lower ascii_strip (fixed_client ''true'') ?g ()
     = (Inr \<lparr>reply = None, messages = [user_says ''yes''],
             extensions = [(''user_confirmed'', PBool False)]\<rparr>, ())"
    by (simp add: update_user_confirmed_cases has_confirm_message_def user_confirmed_def
        set_user_confirmed_def dict_get_def)
  with run t show ?thesis by simp
qed

text \<open>
  C2 as stated fails when the flag is true on entry: the reply \<open>no\<close> to a
  confirmation prompt is not classified, and the flag stays true.
\<close>

theorem update_user_confirmed_counterexample:
  "messages stale_history = [confirm_prompt, user_says ''no'']
   \<and> type confirm_prompt = ''confirm''
   \<and> is_user_confirmed ascii_lower ascii_strip (content (user_says ''no'')) (fixed_client ''false'') () = (Inr False, ())
   \<and> update_user_confirmed ascii_lower ascii_strip (fixed_client ''false'') stale_history () = (Inr stale_history, ())
   \<and> user_confirmed (extensions stale_history) = PBool True"
  by (simp add: stale_history_def confirm_prompt_def user_says_def is_user_confirmed_def
      ascii_lower_def ascii_lower_char_def update_user_confirmed_cases has_confirm_message_def
      user_confirmed_def set_user_confirmed_def dict_get_def)

text \<open>
  C10. After \<open>update_user_submitted\<close> the \<open>user_submitted\<close> flag of the extensions is
  true exactly when the history is not empty and its last message has role \<open>user\<close> and
  type \<open>submit\<close>, whatever the flag was before; the messages are left as they were.
\<close>

theorem update_user_submitted_flag:
  "user_submitted (extensions (update_user_submitted history)) =
     PBool (messages history \<noteq> [] \<and> role (last (messages history)) = ''user''
            \<and> type (last (messages history)) = ''submit'')
   \<and> messages (update_user_submitted history) = messages history"
  by (simp add: update_user_submitted_def user_submitted_def set_user_submitted_def
      dict_get_dict_set_same is_submit_message_def Let_def)

text \<open>A submitted form, and an empty history with the flag set.\<close>

theorem update_user_submitted_flag_witness:
  "user_submitted (extensions (update_user_submitted
      \<lparr>reply = None, messages = [(user_says ''{}'')\<lparr>type := ''submit''\<rparr>],
       extensions = []\<rparr>)) = PBool True
   \<and> user_submitted (extensions (update_user_submitted
      \<lparr>reply = None, messages = [], extensions = [(''user_submitted'', PBool True)]\<rparr>))
     = PBool False"
  using update_user_submitted_flag [of "\<lparr>reply = None,
      messages = [(user_says ''{}'')\<lparr>type := ''submit''\<rparr>], extensions = []\<rparr>"]
    update_user_submitted_flag [of "\<lparr>reply = None, messages = [],
      extensions = [(''user_submitted'', PBool True)]\<rparr>"]
  by (simp add: user_says_def)


end
